theory Spec2Isabelle
  imports Main
begin

section \<open>Python values, exceptions and the HTTP response\<close>

text \<open>
  \<^verbatim>\<open>src/fetcher/lambda_function.py\<close> has one function of interest,
  \<^verbatim>\<open>get_public_repositories(username)\<close>. It calls \<^verbatim>\<open>requests.get(url)\<close>, reads
  \<^verbatim>\<open>response.status_code\<close>, and on 200 evaluates
  \<^verbatim>\<open>[repo["name"] for repo in response.json()]\<close>.

  The value \<^verbatim>\<open>response.json()\<close> returns is a Python value built by the JSON decoder:
  \<^verbatim>\<open>null\<close> is \<^verbatim>\<open>None\<close>, \<^verbatim>\<open>true\<close>/\<^verbatim>\<open>false\<close> a \<^verbatim>\<open>bool\<close>, a number an \<^verbatim>\<open>int\<close> or a
  \<^verbatim>\<open>float\<close>, a string a \<^verbatim>\<open>str\<close>, an array a \<^verbatim>\<open>list\<close> and an object a \<^verbatim>\<open>dict\<close> with
  \<^verbatim>\<open>str\<close> keys. A \<^verbatim>\<open>dict\<close> is kept as an association list in insertion order; lookup
  takes the binding \<open>map_of\<close> finds (a decoded \<^verbatim>\<open>dict\<close> has each key once).
\<close>

datatype pyfloat = Finite int int | Infinity bool | NaN

datatype pyval =
    PNone
  | PBool bool
  | PInt int
  | PFloat pyfloat
  | PStr string
  | PList "pyval list"
  | PDict "(string \<times> pyval) list"

text \<open>
  The exceptions that can leave the function: \<^verbatim>\<open>TypeError\<close> (iterating or subscripting a
  value that does not support it), \<^verbatim>\<open>KeyError\<close> (a \<^verbatim>\<open>dict\<close> without the key),
  the decoder's \<^verbatim>\<open>JSONDecodeError\<close>, and whatever \<^verbatim>\<open>requests.get\<close> raises when no
  response arrives (\<^verbatim>\<open>ConnectionError\<close>, \<^verbatim>\<open>Timeout\<close>, ...: the class name is carried).
\<close>

datatype exn =
    TypeError
  | KeyError string
  | JSONDecodeError
  | RequestException string

text \<open>
  What the function reads of a response: \<^verbatim>\<open>status_code\<close>, \<^verbatim>\<open>reason\<close> (which may be
  \<^verbatim>\<open>None\<close>) and the outcome of calling \<^verbatim>\<open>json()\<close>, which either raises or returns the
  decoded value.
\<close>

record response =
  status_code :: int
  reason :: "string option"
  json :: "exn + pyval"

text \<open>
  The effects of a call, in program order: the records handed to the root logger, the
  outbound GET, and the call of \<^verbatim>\<open>response.json()\<close>.
\<close>

datatype event =
    LogInfo string
  | LogError string
  | HttpGet string
  | JsonCall

section \<open>The Python operations the function uses\<close>

text \<open>\<^verbatim>\<open>for repo in repos\<close>: a \<^verbatim>\<open>list\<close> yields its elements, a \<^verbatim>\<open>dict\<close> its keys, a
  \<^verbatim>\<open>str\<close> its characters as one-character strings; every other decoded value is not
  iterable.\<close>

fun py_iter :: "pyval \<Rightarrow> exn + pyval list" where
  "py_iter (PList xs) = Inr xs"
| "py_iter (PDict kvs) = Inr (map (\<lambda>kv. PStr (fst kv)) kvs)"
| "py_iter (PStr s) = Inr (map (\<lambda>c. PStr [c]) s)"
| "py_iter PNone = Inl TypeError"
| "py_iter (PBool b) = Inl TypeError"
| "py_iter (PInt i) = Inl TypeError"
| "py_iter (PFloat f) = Inl TypeError"

text \<open>\<^verbatim>\<open>repo[key]\<close> with a \<^verbatim>\<open>str\<close> key: only a \<^verbatim>\<open>dict\<close> accepts it, and raises
  \<^verbatim>\<open>KeyError\<close> when the key is absent.\<close>

fun py_getitem :: "pyval \<Rightarrow> string \<Rightarrow> exn + pyval" where
  "py_getitem (PDict kvs) k =
     (case map_of kvs k of None \<Rightarrow> Inl (KeyError k) | Some v \<Rightarrow> Inr v)"
| "py_getitem PNone k = Inl TypeError"
| "py_getitem (PBool b) k = Inl TypeError"
| "py_getitem (PInt i) k = Inl TypeError"
| "py_getitem (PFloat f) k = Inl TypeError"
| "py_getitem (PStr s) k = Inl TypeError"
| "py_getitem (PList xs) k = Inl TypeError"

text \<open>The body of the comprehension \<^verbatim>\<open>[repo["name"] for repo in repos]\<close> over the
  elements the iteration yields: the first element that raises ends it.\<close>

fun name_of_each :: "pyval list \<Rightarrow> exn + pyval list" where
  "name_of_each [] = Inr []"
| "name_of_each (repo # rest) =
     (case py_getitem repo ''name'' of
        Inl e \<Rightarrow> Inl e
      | Inr v \<Rightarrow> (case name_of_each rest of Inl e \<Rightarrow> Inl e | Inr vs \<Rightarrow> Inr (v # vs)))"

definition name_comprehension :: "pyval \<Rightarrow> exn + pyval list" where
  "name_comprehension repos =
     (case py_iter repos of Inl e \<Rightarrow> Inl e | Inr elems \<Rightarrow> name_of_each elems)"

text \<open>\<^verbatim>\<open>str(n)\<close> of an \<^verbatim>\<open>int\<close>, and the rendering of \<^verbatim>\<open>response.reason\<close> inside an
  f-string.\<close>

fun str_nat :: "nat \<Rightarrow> string" where
  "str_nat n =
     (if n < 10 then [char_of (48 + n)]
      else str_nat (n div 10) @ [char_of (48 + n mod 10)])"

declare str_nat.simps [simp del]

definition str_int :: "int \<Rightarrow> string" where
  "str_int i = (if i < 0 then CHR ''-'' # str_nat (nat (- i)) else str_nat (nat i))"

definition str_reason :: "string option \<Rightarrow> string" where
  "str_reason r = (case r of None \<Rightarrow> ''None'' | Some s \<Rightarrow> s)"

section \<open>get_public_repositories\<close>

text \<open>
  \<open>requests_get\<close> stands for \<^verbatim>\<open>requests.get\<close>: for a URL it either raises or returns a
  response. The function returns the events it caused, in order, and its outcome:
  \<open>Inl e\<close> when exception \<open>e\<close> leaves it, \<open>Inr names\<close> when it returns the list \<open>names\<close>.
\<close>

definition get_public_repositories ::
  "(string \<Rightarrow> exn + response) \<Rightarrow> string \<Rightarrow> event list \<times> (exn + pyval list)" where
  "get_public_repositories requests_get username =
     (let url = ''https://api.github.com/users/'' @ username @ ''/repos'';
          ev1 = [LogInfo (''Attempting to fetch public repositories for user: '' @ username),
                 HttpGet url]
      in case requests_get url of
           Inl e \<Rightarrow> (ev1, Inl e)
         | Inr response \<Rightarrow>
             (let ev2 = ev1 @
                    [LogInfo (''API request made to URL: '' @ url @
                       '' with response status code: '' @ str_int (status_code response))]
              in if status_code response = 200 then
                   (let ev3 = ev2 @
                          [LogInfo (''Successfully fetched data for user: '' @ username),
                           JsonCall]
                    in case json response of
                         Inl e \<Rightarrow> (ev3, Inl e)
                       | Inr repos \<Rightarrow> (ev3, name_comprehension repos))
                 else
                   (ev2 @
                      [LogError (''Failed to fetch repositories. HTTP Status Code: '' @
                         str_int (status_code response) @ '', Reason: '' @
                         str_reason (reason response))],
                    Inr [])))"

text \<open>The events of a call and what the caller receives.\<close>

definition events_of :: "(string \<Rightarrow> exn + response) \<Rightarrow> string \<Rightarrow> event list" where
  "events_of requests_get username = fst (get_public_repositories requests_get username)"

definition outcome_of :: "(string \<Rightarrow> exn + response) \<Rightarrow> string \<Rightarrow> exn + pyval list" where
  "outcome_of requests_get username = snd (get_public_repositories requests_get username)"

text \<open>The URLs of the GET requests among a call's events.\<close>

fun http_gets :: "event list \<Rightarrow> string list" where
  "http_gets [] = []"
| "http_gets (HttpGet url # evs) = url # http_gets evs"
| "http_gets (LogInfo m # evs) = http_gets evs"
| "http_gets (LogError m # evs) = http_gets evs"
| "http_gets (JsonCall # evs) = http_gets evs"

section \<open>Shapes of a decoded body\<close>

text \<open>
  The expected body is an array of objects each having the key \<^verbatim>\<open>name\<close>. As decoded
  values: a \<^verbatim>\<open>list\<close> whose elements are \<^verbatim>\<open>dict\<close>s in which \<^verbatim>\<open>"name"\<close> is bound.
\<close>

fun has_name_field :: "pyval \<Rightarrow> bool" where
  "has_name_field (PDict kvs) = (map_of kvs ''name'' \<noteq> None)"
| "has_name_field PNone = False"
| "has_name_field (PBool b) = False"
| "has_name_field (PInt i) = False"
| "has_name_field (PFloat f) = False"
| "has_name_field (PStr s) = False"
| "has_name_field (PList xs) = False"

fun is_repo_array :: "pyval \<Rightarrow> bool" where
  "is_repo_array (PList xs) = list_all has_name_field xs"
| "is_repo_array PNone = False"
| "is_repo_array (PBool b) = False"
| "is_repo_array (PInt i) = False"
| "is_repo_array (PFloat f) = False"
| "is_repo_array (PStr s) = False"
| "is_repo_array (PDict kvs) = False"

text \<open>
  Two behaviours of the HTTP client at one URL are the same when both raise the same
  exception, or both return a response with the same status code and the same body (the
  same outcome of \<^verbatim>\<open>json()\<close>). The reason phrase is not compared.
\<close>

definition same_upstream :: "exn + response \<Rightarrow> exn + response \<Rightarrow> bool" where
  "same_upstream a b =
     (case a of
        Inl e1 \<Rightarrow> (case b of Inl e2 \<Rightarrow> e1 = e2 | Inr r2 \<Rightarrow> False)
      | Inr r1 \<Rightarrow>
          (case b of
             Inl e2 \<Rightarrow> False
           | Inr r2 \<Rightarrow> status_code r1 = status_code r2 \<and> json r1 = json r2))"

section \<open>Properties\<close>

lemma http_gets_append: "http_gets (xs @ ys) = http_gets xs @ http_gets ys"
  by (induction xs rule: http_gets.induct) simp_all

lemma http_gets_call:
  "http_gets (events_of requests_get username) =
     [''https://api.github.com/users/'' @ username @ ''/repos'']"
  by (simp add: events_of_def get_public_repositories_def Let_def http_gets_append
      split: sum.splits)

lemma py_getitem_Inr_iff:
  "py_getitem repo k = Inr v \<longleftrightarrow> (\<exists>kvs. repo = PDict kvs \<and> map_of kvs k = Some v)"
  by (cases repo) (auto split: option.splits)

lemma has_name_field_iff: "has_name_field repo \<longleftrightarrow> (\<exists>v. py_getitem repo ''name'' = Inr v)"
  by (cases repo) (auto split: option.splits)

lemma name_of_each_Inr_iff:
  "name_of_each objs = Inr vs \<longleftrightarrow>
     list_all2 (\<lambda>repo v. py_getitem repo ''name'' = Inr v) objs vs"
proof (induction objs arbitrary: vs)
  case Nil
  show ?case by auto
next
  case (Cons repo rest)
  show ?case
  proof (cases "py_getitem repo ''name''")
    case (Inl e)
    then show ?thesis by (auto simp: list_all2_Cons1)
  next
    case (Inr v)
    note gi = this
    show ?thesis
    proof (cases "name_of_each rest")
      case (Inl e)
      with gi Cons.IH show ?thesis by (auto simp: list_all2_Cons1)
    next
      case (Inr ws)
      with gi Cons.IH [of ws] Cons.IH show ?thesis
        by (auto simp: list_all2_Cons1)
    qed
  qed
qed

lemma name_of_each_total_iff:
  "(\<exists>vs. name_of_each objs = Inr vs) \<longleftrightarrow> list_all has_name_field objs"
  by (induction objs) (auto simp: has_name_field_iff split: sum.splits)

lemma name_of_each_keys: "name_of_each (map (\<lambda>kv. PStr (fst kv)) kvs) = Inr out \<longleftrightarrow> kvs = [] \<and> out = []"
  by (cases kvs) auto

lemma name_of_each_chars: "name_of_each (map (\<lambda>c. PStr [c]) s) = Inr out \<longleftrightarrow> s = [] \<and> out = []"
  by (cases s) auto

lemma name_comprehension_Inr_iff:
  "name_comprehension v = Inr out \<longleftrightarrow>
     (\<exists>objs. v = PList objs \<and> name_of_each objs = Inr out)
     \<or> (v = PDict [] \<and> out = []) \<or> (v = PStr [] \<and> out = [])"
  by (cases v) (auto simp: name_comprehension_def name_of_each_keys name_of_each_chars)

lemma outcome_raise:
  "requests_get (''https://api.github.com/users/'' @ username @ ''/repos'') = Inl e \<Longrightarrow>
   outcome_of requests_get username = Inl e"
  by (simp add: outcome_of_def get_public_repositories_def)

lemma outcome_200:
  "requests_get (''https://api.github.com/users/'' @ username @ ''/repos'') = Inr r \<Longrightarrow>
   status_code r = 200 \<Longrightarrow>
   outcome_of requests_get username =
     (case json r of Inl e \<Rightarrow> Inl e | Inr repos \<Rightarrow> name_comprehension repos)"
  by (simp add: outcome_of_def get_public_repositories_def Let_def split: sum.splits)

lemma outcome_not_200:
  "requests_get (''https://api.github.com/users/'' @ username @ ''/repos'') = Inr r \<Longrightarrow>
   status_code r \<noteq> 200 \<Longrightarrow>
   outcome_of requests_get username = Inr []"
  by (simp add: outcome_of_def get_public_repositories_def Let_def)

lemma events_not_200:
  "requests_get (''https://api.github.com/users/'' @ username @ ''/repos'') = Inr r \<Longrightarrow>
   status_code r \<noteq> 200 \<Longrightarrow>
   JsonCall \<notin> set (events_of requests_get username)"
  by (simp add: events_of_def get_public_repositories_def Let_def)

lemma name_of_each_count:
  "list_all2 (\<lambda>repo v. py_getitem repo ''name'' = Inr v) objs out \<Longrightarrow>
   count_list out v = length (filter (\<lambda>repo. py_getitem repo ''name'' = Inr v) objs)"
  by (induction objs out rule: list_all2_induct) auto

lemma name_of_each_cong:
  "list_all2 (\<lambda>x y. py_getitem x ''name'' = py_getitem y ''name'') xs ys \<Longrightarrow>
   name_of_each xs = name_of_each ys"
  by (induction xs ys rule: list_all2_induct) (auto split: sum.splits)

text \<open>
  C1. When the client returns a response with status 200 whose body decodes to an array
  \<open>objs\<close> of objects, the \<open>i\<close>-th of which binds \<^verbatim>\<open>name\<close> to the \<open>i\<close>-th element of
  \<open>names\<close>, the function returns exactly \<open>names\<close>: as many values as the array has
  elements, in the array's order. For the empty array it returns the empty list.
\<close>

theorem names_returned_in_order:
  assumes "requests_get (''https://api.github.com/users/'' @ username @ ''/repos'') = Inr r"
    and "status_code r = 200"
    and "json r = Inr (PList objs)"
    and "list_all2 (\<lambda>repo v. \<exists>kvs. repo = PDict kvs \<and> map_of kvs ''name'' = Some v)
           objs names"
  shows "outcome_of requests_get username = Inr names \<and> length names = length objs \<and>
         (objs = [] \<longrightarrow> outcome_of requests_get username = Inr [])"
proof -
  from assms(4) have all2: "list_all2 (\<lambda>repo v. py_getitem repo ''name'' = Inr v) objs names"
    by (simp add: py_getitem_Inr_iff)
  then have "name_of_each objs = Inr names"
    by (simp add: name_of_each_Inr_iff)
  with assms(1-3) have out: "outcome_of requests_get username = Inr names"
    by (simp add: outcome_200 name_comprehension_def)
  from all2 have len: "length names = length objs"
    by (simp add: list_all2_lengthD)
  from out len show ?thesis by auto
qed

theorem names_returned_in_order_witness:
  "outcome_of
     (\<lambda>url. Inr \<lparr>status_code = 200, reason = Some ''OK'',
        json = Inr (PList [PDict [(''name'', PStr ''repo1'')],
                           PDict [(''name'', PStr ''repo2'')],
                           PDict [(''name'', PStr ''repo3'')]])\<rparr>)
     ''testuser''
   = Inr [PStr ''repo1'', PStr ''repo2'', PStr ''repo3'']"
  using names_returned_in_order
    [of "\<lambda>url. Inr \<lparr>status_code = 200, reason = Some ''OK'',
        json = Inr (PList [PDict [(''name'', PStr ''repo1'')],
                           PDict [(''name'', PStr ''repo2'')],
                           PDict [(''name'', PStr ''repo3'')]])\<rparr>"
        "''testuser''" _ _ "[PStr ''repo1'', PStr ''repo2'', PStr ''repo3'']"]
  by simp

text \<open>
  C2. When the status code of the response is not 200, the function returns the empty
  list and raises nothing, whatever the body is (also a body that would not decode), and
  \<^verbatim>\<open>response.json()\<close> is not called.
\<close>

theorem non_200_returns_empty:
  assumes "requests_get (''https://api.github.com/users/'' @ username @ ''/repos'') = Inr r"
    and "status_code r \<noteq> 200"
  shows "outcome_of requests_get username = Inr [] \<and>
         JsonCall \<notin> set (events_of requests_get username)"
  using assms by (simp add: outcome_not_200 events_not_200)

theorem non_200_returns_empty_witness:
  "outcome_of
     (\<lambda>url. Inr \<lparr>status_code = 404, reason = Some ''Not Found'', json = Inr (PDict [])\<rparr>)
     ''nonexistentuser'' = Inr [] \<and>
   outcome_of
     (\<lambda>url. Inr \<lparr>status_code = 500, reason = None, json = Inl JSONDecodeError\<rparr>)
     ''testuser'' = Inr []"
  using non_200_returns_empty
    [of "\<lambda>url. Inr \<lparr>status_code = 404, reason = Some ''Not Found'', json = Inr (PDict [])\<rparr>"
        "''nonexistentuser''"]
    non_200_returns_empty
    [of "\<lambda>url. Inr \<lparr>status_code = 500, reason = None, json = Inl JSONDecodeError\<rparr>"
        "''testuser''"]
  by simp

text \<open>
  C3 (as amended). When the status is 200 and the body either fails to decode, or decodes
  to a value that is not an array of objects each having \<^verbatim>\<open>name\<close> and is neither the
  empty object nor the empty string, an exception leaves the function.
\<close>

theorem bad_body_raises:
  assumes "requests_get (''https://api.github.com/users/'' @ username @ ''/repos'') = Inr r"
    and "status_code r = 200"
    and "json r = Inl e \<or>
         (json r = Inr v \<and> \<not> is_repo_array v \<and> v \<noteq> PDict [] \<and> v \<noteq> PStr [])"
  shows "\<exists>err. outcome_of requests_get username = Inl err"
proof -
  from assms(3) show ?thesis
  proof
    assume "json r = Inl e"
    with assms(1,2) show ?thesis by (simp add: outcome_200)
  next
    assume bad: "json r = Inr v \<and> \<not> is_repo_array v \<and> v \<noteq> PDict [] \<and> v \<noteq> PStr []"
    have "\<not> (\<exists>out. name_comprehension v = Inr out)"
    proof
      assume "\<exists>out. name_comprehension v = Inr out"
      then obtain out where "name_comprehension v = Inr out" ..
      with bad obtain objs where v: "v = PList objs" and "name_of_each objs = Inr out"
        by (auto simp: name_comprehension_Inr_iff)
      then have "list_all has_name_field objs"
        using name_of_each_total_iff [of objs] by blast
      with v bad show False by simp
    qed
    then obtain err where "name_comprehension v = Inl err"
      by (cases "name_comprehension v") auto
    with bad assms(1,2) show ?thesis by (simp add: outcome_200)
  qed
qed

theorem bad_body_raises_witness:
  "(\<exists>err. outcome_of
      (\<lambda>url. Inr \<lparr>status_code = 200, reason = Some ''OK'', json = Inl JSONDecodeError\<rparr>)
      ''testuser'' = Inl err) \<and>
   (\<exists>err. outcome_of
      (\<lambda>url. Inr \<lparr>status_code = 200, reason = Some ''OK'',
         json = Inr (PDict [(''message'', PStr ''Not Found'')])\<rparr>)
      ''testuser'' = Inl err) \<and>
   (\<exists>err. outcome_of
      (\<lambda>url. Inr \<lparr>status_code = 200, reason = Some ''OK'',
         json = Inr (PList [PDict [(''name'', PStr ''repo1'')], PDict [(''id'', PInt 7)]])\<rparr>)
      ''testuser'' = Inl err)"
  using bad_body_raises
    [of "\<lambda>url. Inr \<lparr>status_code = 200, reason = Some ''OK'', json = Inl JSONDecodeError\<rparr>"
        "''testuser''" _ JSONDecodeError PNone]
    bad_body_raises
    [of "\<lambda>url. Inr \<lparr>status_code = 200, reason = Some ''OK'',
         json = Inr (PDict [(''message'', PStr ''Not Found'')])\<rparr>"
        "''testuser''" _ JSONDecodeError "PDict [(''message'', PStr ''Not Found'')]"]
    bad_body_raises
    [of "\<lambda>url. Inr \<lparr>status_code = 200, reason = Some ''OK'',
         json = Inr (PList [PDict [(''name'', PStr ''repo1'')], PDict [(''id'', PInt 7)]])\<rparr>"
        "''testuser''" _ JSONDecodeError
        "PList [PDict [(''name'', PStr ''repo1'')], PDict [(''id'', PInt 7)]]"]
  by simp

text \<open>
  C3 as stated fails: the empty object \<^verbatim>\<open>{}\<close> is not an array, yet on a 200 response
  with that body the function returns the empty list (iterating an empty \<^verbatim>\<open>dict\<close> yields
  nothing, so no element is ever subscripted).
\<close>

theorem empty_object_returns_empty_counterexample:
  "\<not> is_repo_array (PDict []) \<and>
   outcome_of
     (\<lambda>url. Inr \<lparr>status_code = 200, reason = Some ''OK'', json = Inr (PDict [])\<rparr>)
     ''testuser'' = Inr []"
  by (simp add: outcome_200 name_comprehension_def)

text \<open>
  C4. When \<^verbatim>\<open>requests.get\<close> raises instead of returning a response, the same exception
  leaves the function: it is not caught and not turned into the empty list.
\<close>

theorem transport_failure_propagates:
  assumes "requests_get (''https://api.github.com/users/'' @ username @ ''/repos'') = Inl e"
  shows "outcome_of requests_get username = Inl e \<and>
         outcome_of requests_get username \<noteq> Inr []"
  using assms by (simp add: outcome_raise)

theorem transport_failure_propagates_witness:
  "outcome_of (\<lambda>url. Inl (RequestException ''ConnectionError'')) ''testuser''
     = Inl (RequestException ''ConnectionError'')"
  using transport_failure_propagates
    [of "\<lambda>url. Inl (RequestException ''ConnectionError'')" "''testuser''"
        "RequestException ''ConnectionError''"]
  by simp

text \<open>
  C5. For every username, the URL of the request is the fixed prefix, the username as
  given and the fixed suffix, concatenated: nothing is encoded or otherwise changed.
\<close>

theorem request_url_is_plain_concatenation:
  "http_gets (events_of requests_get username) =
     [''https://api.github.com/users/'' @ username @ ''/repos'']"
  by (rule http_gets_call)

text \<open>
  C6. Every call performs exactly one GET, whatever the client does (raises, or returns
  a response of any status and body).
\<close>

theorem exactly_one_get:
  "length (http_gets (events_of requests_get username)) = 1"
  by (simp add: http_gets_call)

text \<open>
  C7. The function takes no state and leaves none: what it returns is determined by the
  username and by what the client does at the request URL. Two clients that behave the
  same at that URL (they may differ at every other URL, and in the reason phrase) give the
  same outcome for the same username.
\<close>

theorem same_upstream_same_result:
  assumes "same_upstream
             (get1 (''https://api.github.com/users/'' @ username @ ''/repos''))
             (get2 (''https://api.github.com/users/'' @ username @ ''/repos''))"
  shows "outcome_of get1 username = outcome_of get2 username"
  using assms
  by (auto simp: same_upstream_def outcome_of_def get_public_repositories_def Let_def
      split: sum.splits)

theorem same_upstream_same_result_witness:
  "outcome_of
     (\<lambda>url. if url = ''https://api.github.com/users/testuser/repos''
        then Inr \<lparr>status_code = 200, reason = Some ''OK'',
               json = Inr (PList [PDict [(''name'', PStr ''repo1'')]])\<rparr>
        else Inl (RequestException ''ConnectionError''))
     ''testuser''
   = outcome_of
     (\<lambda>url. Inr \<lparr>status_code = 200, reason = None,
               json = Inr (PList [PDict [(''name'', PStr ''repo1'')]])\<rparr>)
     ''testuser''"
  using same_upstream_same_result
    [of "\<lambda>url. if url = ''https://api.github.com/users/testuser/repos''
        then Inr \<lparr>status_code = 200, reason = Some ''OK'',
               json = Inr (PList [PDict [(''name'', PStr ''repo1'')]])\<rparr>
        else Inl (RequestException ''ConnectionError'')"
        "''testuser''"
        "\<lambda>url. Inr \<lparr>status_code = 200, reason = None,
               json = Inr (PList [PDict [(''name'', PStr ''repo1'')]])\<rparr>"]
  by (simp add: same_upstream_def)

text \<open>
  C8. Take two 200 responses whose bodies are arrays of objects that agree, element by
  element, on what \<^verbatim>\<open>name\<close> is bound to (or on its absence), whatever other keys the
  objects have. Both calls have the same outcome. When moreover every element of the first
  array binds \<^verbatim>\<open>name\<close>, the \<open>i\<close>-th to the \<open>i\<close>-th element of \<open>names\<close>, both calls return
  exactly the list \<open>names\<close>, in which each value occurs as often as there are array elements
  that bind \<^verbatim>\<open>name\<close> to it: duplicates are kept.
\<close>

theorem result_depends_only_on_names:
  assumes "get1 (''https://api.github.com/users/'' @ user1 @ ''/repos'') = Inr r1"
    and "status_code r1 = 200"
    and "json r1 = Inr (PList xs)"
    and "get2 (''https://api.github.com/users/'' @ user2 @ ''/repos'') = Inr r2"
    and "status_code r2 = 200"
    and "json r2 = Inr (PList ys)"
    and "list_all2 (\<lambda>x y. \<exists>kx ky. x = PDict kx \<and> y = PDict ky \<and>
                       map_of kx ''name'' = map_of ky ''name'') xs ys"
  shows "outcome_of get1 user1 = outcome_of get2 user2 \<and>
         (\<forall>names.
            list_all2 (\<lambda>x v. \<exists>kx. x = PDict kx \<and> map_of kx ''name'' = Some v) xs names \<longrightarrow>
            outcome_of get1 user1 = Inr names \<and>
            outcome_of get2 user2 = Inr names \<and>
            (\<forall>v. count_list names v =
               length (filter (\<lambda>x. \<exists>kx. x = PDict kx \<and> map_of kx ''name'' = Some v) xs)))"
proof -
  have o1: "outcome_of get1 user1 = name_of_each xs"
    using assms(1-3) by (simp add: outcome_200 name_comprehension_def)
  have o2: "outcome_of get2 user2 = name_of_each ys"
    using assms(4-6) by (simp add: outcome_200 name_comprehension_def)
  have "list_all2 (\<lambda>x y. py_getitem x ''name'' = py_getitem y ''name'') xs ys"
    using assms(7) by (rule list_all2_mono) auto
  then have same: "name_of_each xs = name_of_each ys"
    by (rule name_of_each_cong)
  have named: "name_of_each xs = Inr names \<and>
      (\<forall>v. count_list names v =
         length (filter (\<lambda>x. \<exists>kx. x = PDict kx \<and> map_of kx ''name'' = Some v) xs))"
    if "list_all2 (\<lambda>x v. \<exists>kx. x = PDict kx \<and> map_of kx ''name'' = Some v) xs names"
    for names
  proof -
    from that have all2: "list_all2 (\<lambda>x v. py_getitem x ''name'' = Inr v) xs names"
      by (simp add: py_getitem_Inr_iff)
    then have ret: "name_of_each xs = Inr names"
      by (simp add: name_of_each_Inr_iff)
    have "count_list names v =
        length (filter (\<lambda>x. \<exists>kx. x = PDict kx \<and> map_of kx ''name'' = Some v) xs)" for v
      using name_of_each_count [OF all2, of v] by (simp add: py_getitem_Inr_iff)
    with ret show ?thesis by simp
  qed
  from o1 o2 same named show ?thesis by simp
qed

theorem result_depends_only_on_names_witness:
  "outcome_of
     (\<lambda>url. Inr \<lparr>status_code = 200, reason = Some ''OK'',
        json = Inr (PList [PDict [(''id'', PInt 1), (''name'', PStr ''dup'')],
                           PDict [(''id'', PInt 2), (''name'', PStr ''dup'')]])\<rparr>)
     ''alice'' = Inr [PStr ''dup'', PStr ''dup''] \<and>
   outcome_of
     (\<lambda>url. Inr \<lparr>status_code = 200, reason = None,
        json = Inr (PList [PDict [(''name'', PStr ''dup'')],
                           PDict [(''name'', PStr ''dup''), (''fork'', PBool True)]])\<rparr>)
     ''bob'' = Inr [PStr ''dup'', PStr ''dup''] \<and>
   count_list [PStr ''dup'', PStr ''dup''] (PStr ''dup'') = 2"
proof -
  let ?xs = "[PDict [(''id'', PInt 1), (''name'', PStr ''dup'')],
              PDict [(''id'', PInt 2), (''name'', PStr ''dup'')]]"
  let ?ys = "[PDict [(''name'', PStr ''dup'')],
              PDict [(''name'', PStr ''dup''), (''fork'', PBool True)]]"
  let ?r1 = "\<lparr>status_code = 200, reason = Some ''OK'', json = Inr (PList ?xs)\<rparr>"
  let ?r2 = "\<lparr>status_code = 200, reason = None, json = Inr (PList ?ys)\<rparr>"
  have all: "\<forall>names.
      list_all2 (\<lambda>x v. \<exists>kx. x = PDict kx \<and> map_of kx ''name'' = Some v) ?xs names \<longrightarrow>
      outcome_of (\<lambda>url. Inr ?r1) ''alice'' = Inr names \<and>
      outcome_of (\<lambda>url. Inr ?r2) ''bob'' = Inr names \<and>
      (\<forall>v. count_list names v =
         length (filter (\<lambda>x. \<exists>kx. x = PDict kx \<and> map_of kx ''name'' = Some v) ?xs))"
    using result_depends_only_on_names
      [of "\<lambda>url. Inr ?r1" "''alice''" ?r1 ?xs "\<lambda>url. Inr ?r2" "''bob''" ?r2 ?ys]
    by simp
  have named: "list_all2 (\<lambda>x v. \<exists>kx. x = PDict kx \<and> map_of kx ''name'' = Some v)
      ?xs [PStr ''dup'', PStr ''dup'']"
    by simp
  from all named have
    "outcome_of (\<lambda>url. Inr ?r1) ''alice'' = Inr [PStr ''dup'', PStr ''dup''] \<and>
     outcome_of (\<lambda>url. Inr ?r2) ''bob'' = Inr [PStr ''dup'', PStr ''dup''] \<and>
     (\<forall>v. count_list [PStr ''dup'', PStr ''dup''] v =
        length (filter (\<lambda>x. \<exists>kx. x = PDict kx \<and> map_of kx ''name'' = Some v) ?xs))"
    by blast
  then show ?thesis by simp
qed

text \<open>
  C9. When the status is 200 and the body decodes to the empty object \<^verbatim>\<open>{}\<close> or to the
  empty string (the empty iterables other than the empty array that a JSON body can
  decode to), the function returns the empty list and raises nothing.
\<close>

theorem empty_non_array_returns_empty:
  assumes "requests_get (''https://api.github.com/users/'' @ username @ ''/repos'') = Inr r"
    and "status_code r = 200"
    and "json r = Inr v"
    and "v = PDict [] \<or> v = PStr []"
  shows "outcome_of requests_get username = Inr []"
  using assms by (auto simp: outcome_200 name_comprehension_def)

theorem empty_non_array_returns_empty_witness:
  "outcome_of
     (\<lambda>url. Inr \<lparr>status_code = 200, reason = Some ''OK'', json = Inr (PDict [])\<rparr>)
     ''testuser'' = Inr [] \<and>
   outcome_of
     (\<lambda>url. Inr \<lparr>status_code = 200, reason = Some ''OK'', json = Inr (PStr [])\<rparr>)
     ''testuser'' = Inr []"
  using empty_non_array_returns_empty
    [of "\<lambda>url. Inr \<lparr>status_code = 200, reason = Some ''OK'', json = Inr (PDict [])\<rparr>"
        "''testuser''"]
    empty_non_array_returns_empty
    [of "\<lambda>url. Inr \<lparr>status_code = 200, reason = Some ''OK'', json = Inr (PStr [])\<rparr>"
        "''testuser''"]
  by simp

text \<open>
  C10. The value bound to \<^verbatim>\<open>name\<close> is not checked to be a string. On a 200 response
  whose body is an array of objects each having \<^verbatim>\<open>name\<close>, the value \<open>v\<close> of the \<open>i\<close>-th
  element, of whatever type (a number, \<^verbatim>\<open>None\<close>, ...), is the \<open>i\<close>-th entry of the returned
  list, and nothing is dropped.
\<close>

theorem name_value_not_validated:
  assumes "requests_get (''https://api.github.com/users/'' @ username @ ''/repos'') = Inr r"
    and "status_code r = 200"
    and "json r = Inr (PList objs)"
    and "list_all has_name_field objs"
    and "i < length objs"
    and "objs ! i = PDict kvs"
    and "map_of kvs ''name'' = Some v"
  shows "\<exists>out. outcome_of requests_get username = Inr out \<and>
               length out = length objs \<and> out ! i = v"
proof -
  from assms(4) obtain out where out: "name_of_each objs = Inr out"
    using name_of_each_total_iff [of objs] by blast
  then have all2: "list_all2 (\<lambda>repo w. py_getitem repo ''name'' = Inr w) objs out"
    by (simp add: name_of_each_Inr_iff)
  then have len: "length out = length objs"
    by (simp add: list_all2_lengthD)
  from all2 assms(5) have "py_getitem (objs ! i) ''name'' = Inr (out ! i)"
    by (rule list_all2_nthD)
  with assms(6,7) have "out ! i = v" by simp
  moreover from assms(1-3) out have "outcome_of requests_get username = Inr out"
    by (simp add: outcome_200 name_comprehension_def)
  ultimately show ?thesis using len by blast
qed

theorem name_value_not_validated_witness:
  "\<exists>out. outcome_of
      (\<lambda>url. Inr \<lparr>status_code = 200, reason = Some ''OK'',
         json = Inr (PList [PDict [(''name'', PStr ''repo1'')],
                            PDict [(''name'', PNone)],
                            PDict [(''name'', PInt 5)]])\<rparr>)
      ''testuser'' = Inr out \<and> length out = 3 \<and> out ! 1 = PNone"
  using name_value_not_validated
    [of "\<lambda>url. Inr \<lparr>status_code = 200, reason = Some ''OK'',
         json = Inr (PList [PDict [(''name'', PStr ''repo1'')],
                            PDict [(''name'', PNone)],
                            PDict [(''name'', PInt 5)]])\<rparr>"
        "''testuser''" _
        "[PDict [(''name'', PStr ''repo1'')], PDict [(''name'', PNone)],
          PDict [(''name'', PInt 5)]]"
        1 "[(''name'', PNone)]" PNone]
  by (simp add: numeral_3_eq_3)

end
